theory Spec2Isabelle
  imports Main
begin

section \<open>The consensus core of floyd (class RaftConsensus)\<close>

text \<open>
  A shallow embedding of the member functions of \<^verbatim>\<open>RaftConsensus\<close> (raft.cc) that
  decide the properties below. Every function runs with \<^verbatim>\<open>mutex_\<close> held, so each is
  one atomic step on the object's fields: it takes the object and returns it updated.

  Conventions.
  \<^item> The fields keep their names without the trailing underscore of the source
    (\<^verbatim>\<open>state_\<close> is \<open>state\<close>, \<^verbatim>\<open>commit_index_\<close> is \<open>commit_index\<close>, ...).
  \<^item> Terms and indices are \<^verbatim>\<open>uint64_t\<close> in the source. They are natural numbers
    here: the functions below only compare them, copy them, or add one per entry of a
    request to an index that is at most the length of the log, so no operation wraps
    below a log of \<open>2^64\<close> entries.
  \<^item> \<^verbatim>\<open>state_changed_.SignalAll()\<close> wakes the other threads and writes no field; it
    has no counterpart in the functions below.
\<close>

subsection \<open>Data\<close>

datatype State = FOLLOWER | CANDIDATE | LEADER

datatype Result = SUCCESS | NOT_LEADER | TIMEOUT

datatype EntryType = DATA | NOOP

text \<open>\<^verbatim>\<open>floyd::raft::Entry\<close> (= \<^verbatim>\<open>Log::Entry\<close>): the fields set by
  \<^verbatim>\<open>set_type\<close>, \<^verbatim>\<open>set_term\<close>, \<^verbatim>\<open>set_cmd\<close>.\<close>

record Entry =
  entry_type :: EntryType
  entry_term :: nat
  entry_cmd :: string

text \<open>\<^verbatim>\<open>struct timeval\<close> (fields \<^verbatim>\<open>tv_sec\<close>, \<^verbatim>\<open>tv_usec\<close>) and
  \<^verbatim>\<open>struct timespec\<close> (fields \<^verbatim>\<open>tv_sec\<close>, \<^verbatim>\<open>tv_nsec\<close>; here \<open>ts_sec\<close>, \<open>ts_nsec\<close>,
  since two records cannot share a field name).\<close>

record timeval =
  tv_sec :: int
  tv_usec :: int

record timespec =
  ts_sec :: int
  ts_nsec :: int

text \<open>\<^verbatim>\<open>std::numeric_limits<time_t>::max()\<close>, for a 64-bit \<^verbatim>\<open>time_t\<close>.\<close>

definition time_t_max :: int where
  "time_t_max = 2 ^ 63 - 1"

text \<open>What a 64-bit \<^verbatim>\<open>time_t\<close> holds after an addition whose exact result is \<open>x\<close>: the
  sum wraps around in two's complement.\<close>

definition time_t_of :: "int \<Rightarrow> int" where
  "time_t_of x = (x + 2 ^ 63) mod 2 ^ 64 - 2 ^ 63"

text \<open>\<^verbatim>\<open>log_->metadata\<close>: optional protobuf fields, unset until written.\<close>

record Metadata =
  md_current_term :: "nat option"
  md_voted_for_ip :: "string option"
  md_voted_for_port :: "int option"

text \<open>Modelled from the spec: class \<^verbatim>\<open>PeerThread\<close> (peer_thread.h) is not among the
  sources. The spec's per-peer state has \<open>match_index\<close>, the "highest index known to be
  replicated on that peer", and names \<^verbatim>\<open>GetLastAgreeIndex\<close> as the per-peer action that
  reads it.\<close>

record PeerThread =
  next_index :: nat
  match_index :: nat
  have_vote :: bool

definition GetLastAgreeIndex :: "PeerThread \<Rightarrow> nat" where
  "GetLastAgreeIndex p = match_index p"

text \<open>The fields of \<^verbatim>\<open>RaftConsensus\<close> that the functions below read or write. \<open>log\<close> is
  the entry sequence of \<^verbatim>\<open>log_\<close> and \<open>metadata\<close> is \<^verbatim>\<open>log_->metadata\<close>.\<close>

record RaftConsensus =
  state :: State
  start_election_at :: timespec
  leader_ip :: string
  leader_port :: int
  voted_for_ip :: string
  voted_for_port :: int
  last_synced_index :: nat
  voteable :: bool
  vote_target_term :: nat
  vote_target_index :: nat
  peers :: "PeerThread list"
  log :: "Entry list"
  metadata :: Metadata
  log_sync_queued :: bool
  current_term :: nat
  commit_index :: nat

text \<open>What a function can end in instead of returning: a failed \<^verbatim>\<open>assert\<close>, or a read
  of a log index that holds no entry.\<close>

datatype error = AssertionFailed | LogIndexMissing

subsection \<open>The log\<close>

text \<open>Modelled from the spec: class \<^verbatim>\<open>Log\<close> as raft.cc uses it (log.h, memory_log.h) is
  not among the sources. By the spec the log is a 1-based, gap-free sequence of entries:
  \<open>append\<close> adds the entries at the end, \<open>truncate_suffix k\<close> leaves \<open>last_index = k\<close>
  with no entry above \<open>k\<close> observable, and \<open>get i\<close> returns the entry written at \<open>i\<close> or
  fails if \<open>i\<close> never existed or was truncated.\<close>

definition GetLastLogIndex :: "Entry list \<Rightarrow> nat" where
  "GetLastLogIndex l = length l"

definition GetEntry :: "Entry list \<Rightarrow> nat \<Rightarrow> Entry option" where
  "GetEntry l index = (if 1 \<le> index \<and> index \<le> length l then Some (l ! (index - 1)) else None)"

definition Log_Append :: "Entry list \<Rightarrow> Entry list \<Rightarrow> Entry list" where
  "Log_Append l entries = l @ entries"

definition TruncateSuffix :: "Entry list \<Rightarrow> nat \<Rightarrow> Entry list" where
  "TruncateSuffix l last_index = take last_index l"

subsection \<open>Clock and random source\<close>

text \<open>\<^verbatim>\<open>SetElectionTimer\<close> reads \<^verbatim>\<open>gettimeofday\<close> and \<^verbatim>\<open>rand\<close>. One \<open>reading\<close> is what
  one call observes: \<open>now\<close>, and \<open>ms\<close>, the value of
  \<^verbatim>\<open>(uint64_t)(elect_timeout_ms + rd * elect_timeout_ms)\<close> (floating point in the source,
  an input here). A handler takes an \<open>env\<close> that gives the reading of each of its call
  sites, numbered in program order; no call site runs twice in one handler. The
  microseconds of a \<^verbatim>\<open>timeval\<close> lie between 0 and 999999, so the truncating \<^verbatim>\<open>/\<close> and
  \<^verbatim>\<open>%\<close> of the source are \<open>div\<close> and \<open>mod\<close> and the nanosecond sums are exact; the
  sums stored in a \<^verbatim>\<open>tv_sec\<close> are taken in \<^verbatim>\<open>time_t\<close>.\<close>

record reading =
  now :: timeval
  ms :: nat

type_synonym env = "nat \<Rightarrow> reading"

subsection \<open>Member functions\<close>

definition SetElectionTimer :: "reading \<Rightarrow> RaftConsensus \<Rightarrow> RaftConsensus" where
  "SetElectionTimer rd s =
     (let sec = time_t_of (tv_sec (now rd) + int (ms rd div 1000));
          nsec = tv_usec (now rd) * 1000 + int (ms rd mod 1000) * 1000000
      in s\<lparr>start_election_at :=
             \<lparr>ts_sec = time_t_of (sec + nsec div 1000000000),
              ts_nsec = nsec mod 1000000000\<rparr>\<rparr>)"

definition UpdateLogMetadata :: "RaftConsensus \<Rightarrow> RaftConsensus" where
  "UpdateLogMetadata s =
     s\<lparr>metadata := \<lparr>md_current_term = Some (current_term s),
                     md_voted_for_ip = Some (voted_for_ip s),
                     md_voted_for_port = Some (voted_for_port s)\<rparr>\<rparr>"

text \<open>\<^verbatim>\<open>Append\<close>: a leader only queues the sync; any other role waits for it at once
  (\<^verbatim>\<open>TakeSync\<close>, \<^verbatim>\<open>Wait\<close>, \<^verbatim>\<open>SyncComplete\<close>), which writes no field of the object.\<close>

definition Append :: "Entry list \<Rightarrow> RaftConsensus \<Rightarrow> RaftConsensus" where
  "Append entries s =
     (let s1 = s\<lparr>log := Log_Append (log s) entries\<rparr>
      in if state s1 = LEADER then s1\<lparr>log_sync_queued := True\<rparr> else s1)"

text \<open>\<^verbatim>\<open>Replicate\<close>; \<open>SerializeToArray\<close> stands for the protobuf serialisation of the
  command, whose bytes become the entry's \<open>cmd\<close>.\<close>

definition Replicate ::
  "('c \<Rightarrow> string) \<Rightarrow> 'c \<Rightarrow> RaftConsensus \<Rightarrow> RaftConsensus \<times> Result \<times> nat" where
  "Replicate SerializeToArray cmd s =
     (if state s = LEADER then
        (let entry = \<lparr>entry_type = DATA, entry_term = current_term s,
                       entry_cmd = SerializeToArray cmd\<rparr>;
             s1 = Append [entry] s;
             index = GetLastLogIndex (log s1)
         in (s1, SUCCESS, index))
      else (s, NOT_LEADER, 0))"

text \<open>\<^verbatim>\<open>WaitForCommitIndex\<close>. With peers, the caller loops on the condition variable;
  between two iterations the mutex is released and other threads change the object.
  A \<open>view\<close> is what one iteration sees: the object as it then is, and the clock it
  reads. The loop runs over the views of one execution and returns \<open>None\<close> when they
  end with the caller still waiting.\<close>

type_synonym view = "RaftConsensus \<times> timeval"

definition timeout_passed :: "timeval \<Rightarrow> timespec \<Rightarrow> bool" where
  "timeout_passed nw timeout_at \<longleftrightarrow>
     tv_sec nw > ts_sec timeout_at \<or>
     (tv_sec nw = ts_sec timeout_at \<and> tv_usec nw * 1000 > ts_nsec timeout_at)"

fun WaitForCommitIndex_loop ::
  "nat \<Rightarrow> timespec \<Rightarrow> view list \<Rightarrow> (RaftConsensus \<times> Result \<times> nat) option" where
  "WaitForCommitIndex_loop index timeout_at [] = None"
| "WaitForCommitIndex_loop index timeout_at ((s, nw) # rest) =
     (if commit_index s \<ge> index then Some (s, SUCCESS, index)
      else if timeout_passed nw timeout_at then Some (s, TIMEOUT, index)
      else WaitForCommitIndex_loop index timeout_at rest)"

text \<open>\<open>now0\<close> is the clock read before the loop, \<open>now1\<close> the one read in its first
  iteration (on the object as it is at the call), \<open>wakeups\<close> the views after each
  \<^verbatim>\<open>WaitUntil\<close>. The deadline is \<^verbatim>\<open>now.tv_sec + 10\<close>, computed in \<^verbatim>\<open>time_t\<close>.\<close>

definition WaitForCommitIndex ::
  "timeval \<Rightarrow> timeval \<Rightarrow> view list \<Rightarrow> nat \<Rightarrow> RaftConsensus
     \<Rightarrow> (RaftConsensus \<times> Result \<times> nat) option" where
  "WaitForCommitIndex now0 now1 wakeups index s =
     (if peers s = [] then Some (s\<lparr>commit_index := index\<rparr>, SUCCESS, index)
      else
        (let timeout_at = \<lparr>ts_sec = time_t_of (tv_sec now0 + 10),
                            ts_nsec = tv_usec now0 * 1000\<rparr>
         in WaitForCommitIndex_loop index timeout_at ((s, now1) # wakeups)))"

definition GetLastLogTerm :: "Entry list \<Rightarrow> error + nat" where
  "GetLastLogTerm l =
     (let last_log_index = GetLastLogIndex l
      in if last_log_index = 0 then Inr 0
         else (case GetEntry l last_log_index of
                 None \<Rightarrow> Inl LogIndexMissing
               | Some e \<Rightarrow> Inr (entry_term e)))"

definition QuorumMin :: "(PeerThread \<Rightarrow> nat) \<Rightarrow> RaftConsensus \<Rightarrow> nat" where
  "QuorumMin getvalue s =
     (if peers s = [] then last_synced_index s
      else (let values = sort (map getvalue (peers s))
            in values ! (length values div 2)))"

definition AdvanceCommitIndex :: "RaftConsensus \<Rightarrow> error + RaftConsensus" where
  "AdvanceCommitIndex s =
     (if state s \<noteq> LEADER then Inr s
      else
        (let new_commit_index = QuorumMin GetLastAgreeIndex s
         in if commit_index s \<ge> new_commit_index then Inr s
            else (case GetEntry (log s) new_commit_index of
                    None \<Rightarrow> Inl LogIndexMissing
                  | Some e \<Rightarrow>
                      if entry_term e \<noteq> current_term s then Inr s
                      else Inr (s\<lparr>commit_index := new_commit_index\<rparr>))))"

definition StepDown :: "reading \<Rightarrow> nat \<Rightarrow> RaftConsensus \<Rightarrow> RaftConsensus" where
  "StepDown rd new_term s =
     (let s1 = (if current_term s < new_term then
                  (UpdateLogMetadata
                     (s\<lparr>current_term := new_term, leader_ip := [], leader_port := 0,
                        voted_for_ip := [], voted_for_port := 0\<rparr>))\<lparr>state := FOLLOWER\<rparr>
                else s\<lparr>state := FOLLOWER\<rparr>);
          s2 = (if ts_sec (start_election_at s1) = time_t_max then SetElectionTimer rd s1
                else s1)
      in if log_sync_queued s2 then s2\<lparr>log_sync_queued := False\<rparr> else s2)"

subsection \<open>Inbound requests\<close>

text \<open>The fields of \<^verbatim>\<open>cmd.aerq()\<close> and of the reply \<^verbatim>\<open>aers\<close>.\<close>

record AppendEntriesRequest =
  aerq_term :: nat
  aerq_ip :: string
  aerq_port :: int
  aerq_prev_log_index :: nat
  aerq_prev_log_term :: nat
  aerq_entries :: "Entry list"
  aerq_commit_index :: nat

record AppendEntriesResponse =
  aers_status :: bool
  aers_term :: nat

text \<open>The \<^verbatim>\<open>for\<close> loop of \<^verbatim>\<open>HandleAppendEntries\<close>: \<open>index\<close> is the loop variable before
  \<^verbatim>\<open>++index\<close>, the list is what the iterator has not yet visited. An entry the log
  holds with the same term is skipped; at the first other one the log is cut below it
  when it holds that index, the rest of the request is appended in one \<^verbatim>\<open>Append\<close>, and
  the loop is left.\<close>

fun HandleAppendEntries_loop ::
  "nat \<Rightarrow> Entry list \<Rightarrow> RaftConsensus \<Rightarrow> error + RaftConsensus" where
  "HandleAppendEntries_loop index [] s = Inr s"
| "HandleAppendEntries_loop index (entry # rest) s =
     (let index = index + 1
      in if GetLastLogIndex (log s) \<ge> index then
           (case GetEntry (log s) index of
              None \<Rightarrow> Inl LogIndexMissing
            | Some e \<Rightarrow>
                if entry_term e = entry_term entry then HandleAppendEntries_loop index rest s
                else Inr (Append (entry # rest)
                            (s\<lparr>log := TruncateSuffix (log s) (index - 1)\<rparr>)))
         else Inr (Append (entry # rest) s))"

text \<open>\<^verbatim>\<open>HandleAppendEntries\<close> from \<^verbatim>\<open>aers->set_status(true)\<close> to its end.\<close>

definition HandleAppendEntries_accept ::
  "AppendEntriesRequest \<Rightarrow> AppendEntriesResponse \<Rightarrow> RaftConsensus
     \<Rightarrow> error + (RaftConsensus \<times> AppendEntriesResponse)" where
  "HandleAppendEntries_accept aerq aers s =
     (case HandleAppendEntries_loop (aerq_prev_log_index aerq) (aerq_entries aerq) s of
        Inl e \<Rightarrow> Inl e
      | Inr s1 \<Rightarrow>
          (let s2 = (if commit_index s1 < aerq_commit_index aerq
                     then s1\<lparr>commit_index := aerq_commit_index aerq\<rparr> else s1)
           in Inr (s2, aers\<lparr>aers_status := True\<rparr>)))"

text \<open>The log-match check of \<^verbatim>\<open>HandleAppendEntries\<close>: each \<^verbatim>\<open>return\<close> leaves the reply
  as it is (\<open>status = false\<close>).\<close>

definition HandleAppendEntries_check ::
  "AppendEntriesRequest \<Rightarrow> AppendEntriesResponse \<Rightarrow> RaftConsensus
     \<Rightarrow> error + (RaftConsensus \<times> AppendEntriesResponse)" where
  "HandleAppendEntries_check aerq aers s =
     (if aerq_prev_log_index aerq \<noteq> 0 then
        (if aerq_prev_log_index aerq > GetLastLogIndex (log s) then Inr (s, aers)
         else (case GetEntry (log s) (aerq_prev_log_index aerq) of
                 None \<Rightarrow> Inl LogIndexMissing
               | Some e \<Rightarrow>
                   if aerq_prev_log_term aerq \<noteq> entry_term e then Inr (s, aers)
                   else HandleAppendEntries_accept aerq aers s))
      else HandleAppendEntries_accept aerq aers s)"

text \<open>\<^verbatim>\<open>HandleAppendEntries\<close>: \<open>env 0\<close> is the reading of the timer call inside
  \<^verbatim>\<open>StepDown\<close>, \<open>env 1\<close> that of the \<^verbatim>\<open>SetElectionTimer\<close> after it.\<close>

definition HandleAppendEntries ::
  "env \<Rightarrow> AppendEntriesRequest \<Rightarrow> RaftConsensus
     \<Rightarrow> error + (RaftConsensus \<times> AppendEntriesResponse)" where
  "HandleAppendEntries env aerq s =
     (let aers = \<lparr>aers_status = False, aers_term = current_term s\<rparr>
      in if aerq_term aerq < current_term s then Inr (s, aers)
         else
           (let aers = (if aerq_term aerq > current_term s
                        then aers\<lparr>aers_term := aerq_term aerq\<rparr> else aers);
                s1 = SetElectionTimer (env 1) (StepDown (env 0) (aerq_term aerq) s)
            in if leader_ip s1 = [] \<or> leader_port s1 = 0 then
                 HandleAppendEntries_check aerq aers
                   (s1\<lparr>leader_ip := aerq_ip aerq, leader_port := aerq_port aerq\<rparr>)
               else if leader_ip s1 = aerq_ip aerq \<and> leader_port s1 = aerq_port aerq then
                 HandleAppendEntries_check aerq aers s1
               else Inl AssertionFailed))"

subsection \<open>RequestVote\<close>

record RequestVote =
  rqv_term :: nat
  rqv_ip :: string
  rqv_port :: int
  rqv_last_log_index :: nat
  rqv_last_log_term :: nat

record ResponseVote =
  rsv_term :: nat
  rsv_granted :: bool

text \<open>The local \<^verbatim>\<open>can_grant\<close> of \<^verbatim>\<open>HandleRequestVote\<close>, as a function of the request and of
  the receiver's \<^verbatim>\<open>last_log_term\<close> and \<^verbatim>\<open>last_log_index\<close>.\<close>

definition can_grant :: "RequestVote \<Rightarrow> nat \<Rightarrow> nat \<Rightarrow> bool" where
  "can_grant rqv last_log_term last_log_index \<longleftrightarrow>
     rqv_last_log_term rqv > last_log_term \<or>
     (rqv_last_log_term rqv = last_log_term \<and> rqv_last_log_index rqv \<ge> last_log_index)"

text \<open>\<^verbatim>\<open>HandleRequestVote\<close>: \<open>env 0\<close> is the reading of the timer call inside the first
  \<^verbatim>\<open>StepDown\<close>, \<open>env 1\<close> that of the \<^verbatim>\<open>StepDown(current_term_)\<close> of the branch taken,
  \<open>env 2\<close> that of the \<^verbatim>\<open>SetElectionTimer\<close> after it.\<close>

definition HandleRequestVote ::
  "env \<Rightarrow> RequestVote \<Rightarrow> RaftConsensus \<Rightarrow> error + (RaftConsensus \<times> ResponseVote)" where
  "HandleRequestVote env rqv s =
     (let last_log_index = GetLastLogIndex (log s)
      in case GetLastLogTerm (log s) of
           Inl e \<Rightarrow> Inl e
         | Inr last_log_term \<Rightarrow>
             (let cg = can_grant rqv last_log_term last_log_index;
                  s1 = (if rqv_term rqv > current_term s \<and> cg
                        then StepDown (env 0) (rqv_term rqv) s else s);
                  s2 = (if commit_index s1 \<ge> vote_target_index s1 \<and>
                           current_term s1 \<ge> vote_target_term s1
                        then s1\<lparr>voteable := True\<rparr> else s1);
                  (s3, granted) =
                    (if rqv_term rqv = current_term s2 then
                       (if cg \<and> voted_for_ip s2 = [] \<and> voted_for_port s2 = 0 then
                          (if voteable s2 then
                             (UpdateLogMetadata
                                ((SetElectionTimer (env 2)
                                    (StepDown (env 1) (current_term s2) s2))
                                 \<lparr>voted_for_ip := rqv_ip rqv, voted_for_port := rqv_port rqv\<rparr>),
                              True)
                           else
                             (SetElectionTimer (env 2)
                                (StepDown (env 1) (current_term s2) s2), False))
                        else (s2, False))
                     else (s2, False))
              in Inr (s3, \<lparr>rsv_term = current_term s3, rsv_granted = granted\<rparr>)))"

subsection \<open>Concrete nodes\<close>

text \<open>A follower in term 1 with an empty log, an entry of a given term, a peer with a
  given match index, and an environment whose \<open>k\<close>-th reading is taken at
  \<open>1000 + k\<close> seconds with a timeout of 1500 ms.\<close>

definition entry_of_term :: "nat \<Rightarrow> Entry" where
  "entry_of_term t = \<lparr>entry_type = DATA, entry_term = t, entry_cmd = ''x''\<rparr>"

definition peer :: "nat \<Rightarrow> PeerThread" where
  "peer m = \<lparr>next_index = m + 1, match_index = m, have_vote = False\<rparr>"

definition env0 :: env where
  "env0 = (\<lambda>k. \<lparr>now = \<lparr>tv_sec = 1000 + int k, tv_usec = 250000\<rparr>, ms = 1500\<rparr>)"

definition node0 :: RaftConsensus where
  "node0 = \<lparr>state = FOLLOWER, start_election_at = \<lparr>ts_sec = 1001, ts_nsec = 0\<rparr>,
     leader_ip = [], leader_port = 0, voted_for_ip = [], voted_for_port = 0,
     last_synced_index = 0, voteable = True, vote_target_term = 0, vote_target_index = 0,
     peers = [], log = [],
     metadata = \<lparr>md_current_term = None, md_voted_for_ip = None, md_voted_for_port = None\<rparr>,
     log_sync_queued = False, current_term = 1, commit_index = 0\<rparr>"

text \<open>A leader of term 2 with two peers that both hold index 1, whose only entry is
  of term 1.\<close>

definition leader_with_old_entry :: RaftConsensus where
  "leader_with_old_entry =
     node0\<lparr>state := LEADER, current_term := 2, peers := [peer 1, peer 1],
           log := [entry_of_term 1]\<rparr>"

text \<open>A leader without peers whose one entry, of an older term, is queued for sync and
  not yet durable.\<close>

definition lone_leader_unsynced :: RaftConsensus where
  "lone_leader_unsynced =
     node0\<lparr>state := LEADER, current_term := 2, log := [entry_of_term 1],
           log_sync_queued := True\<rparr>"

text \<open>A follower of term 1 holding one entry of term 1, and an AppendEntries request of
  its leader that matches at index 1, carries one more entry and announces
  \<open>leader_commit = 7\<close>; the same request with \<open>prev_log_term = 2\<close>, which does not
  match.\<close>

definition follower_one_entry :: RaftConsensus where
  "follower_one_entry = node0\<lparr>log := [entry_of_term 1]\<rparr>"

definition append_ahead :: AppendEntriesRequest where
  "append_ahead =
     \<lparr>aerq_term = 1, aerq_ip = ''10.0.0.1'', aerq_port = 8901, aerq_prev_log_index = 1,
      aerq_prev_log_term = 1, aerq_entries = [entry_of_term 1], aerq_commit_index = 7\<rparr>"

definition append_mismatch :: AppendEntriesRequest where
  "append_mismatch = append_ahead\<lparr>aerq_prev_log_term := 2\<rparr>"

text \<open>A follower of term 3 that has voted for 10.0.0.2:8901 in that term, and the
  RequestVote of that same candidate for term 3; a leader of term 2 whose log ends in
  an entry of term 2, and two RequestVotes of term 5 for it: one from a candidate whose
  log ends in term 1, one from a candidate whose log ends in term 2.\<close>

definition voted_follower :: RaftConsensus where
  "voted_follower =
     node0\<lparr>current_term := 3, voted_for_ip := ''10.0.0.2'', voted_for_port := 8901\<rparr>"

definition vote_request :: RequestVote where
  "vote_request =
     \<lparr>rqv_term = 3, rqv_ip = ''10.0.0.2'', rqv_port = 8901, rqv_last_log_index = 0,
      rqv_last_log_term = 0\<rparr>"

definition leader_term2 :: RaftConsensus where
  "leader_term2 =
     node0\<lparr>state := LEADER, start_election_at := \<lparr>ts_sec = time_t_max, ts_nsec = 0\<rparr>,
           leader_ip := ''10.0.0.1'', leader_port := 8901,
           voted_for_ip := ''10.0.0.1'', voted_for_port := 8901,
           log := [entry_of_term 2], current_term := 2\<rparr>"

definition stale_log_vote_request :: RequestVote where
  "stale_log_vote_request =
     \<lparr>rqv_term = 5, rqv_ip = ''10.0.0.2'', rqv_port = 8901, rqv_last_log_index = 1,
      rqv_last_log_term = 1\<rparr>"

definition fresh_log_vote_request :: RequestVote where
  "fresh_log_vote_request = stale_log_vote_request\<lparr>rqv_last_log_term := 2\<rparr>"



text \<open>A leader of term 1 with two peers that hold nothing, waiting for index 1; the
  same node after it has stepped down to term 2; and clock readings at 1000, 1005 and
  1011 seconds.\<close>

definition waiting_leader :: RaftConsensus where
  "waiting_leader =
     node0\<lparr>state := LEADER, start_election_at := \<lparr>ts_sec = time_t_max, ts_nsec = 0\<rparr>,
           peers := [peer 0, peer 0], log := [entry_of_term 1], log_sync_queued := True\<rparr>"

definition deposed_leader :: RaftConsensus where
  "deposed_leader =
     waiting_leader\<lparr>state := FOLLOWER,
                    start_election_at := \<lparr>ts_sec = 1006, ts_nsec = 500000000\<rparr>,
                    metadata := \<lparr>md_current_term = Some 2, md_voted_for_ip = Some [],
                                  md_voted_for_port = Some 0\<rparr>,
                    log_sync_queued := False, current_term := 2\<rparr>"

definition at_second :: "int \<Rightarrow> timeval" where
  "at_second n = \<lparr>tv_sec = n, tv_usec = 0\<rparr>"

text \<open>A leader of term 1 without peers and with an empty log, and what two
  \<^verbatim>\<open>Replicate\<close> calls make of its log.\<close>

definition lone_leader :: RaftConsensus where
  "lone_leader =
     node0\<lparr>state := LEADER, start_election_at := \<lparr>ts_sec = time_t_max, ts_nsec = 0\<rparr>\<rparr>"

definition lone_leader_two_entries :: RaftConsensus where
  "lone_leader_two_entries =
     lone_leader\<lparr>log := [\<lparr>entry_type = DATA, entry_term = 1, entry_cmd = ''a''\<rparr>,
                         \<lparr>entry_type = DATA, entry_term = 1, entry_cmd = ''b''\<rparr>],
                 log_sync_queued := True\<rparr>"

section \<open>Properties\<close>

subsection \<open>Replicate\<close>

text \<open>C7. \<^verbatim>\<open>Replicate\<close> returns \<open>NOT_LEADER\<close> exactly when the role is not \<open>LEADER\<close>, and
  then leaves the object, the log included, as it was (returning index 0). When the
  role is \<open>LEADER\<close> it appends exactly one entry, of type \<open>DATA\<close>, with the current term
  and the serialised command as payload, queues the sync, and returns \<open>SUCCESS\<close> with
  the index of that entry, the new last index of the log.\<close>

theorem Replicate_appends_one_DATA_entry:
  "(fst (snd (Replicate SerializeToArray cmd s)) = NOT_LEADER \<longleftrightarrow> state s \<noteq> LEADER) \<and>
   Replicate SerializeToArray cmd s =
     (if state s = LEADER then
        (s\<lparr>log := log s @ [\<lparr>entry_type = DATA, entry_term = current_term s,
                              entry_cmd = SerializeToArray cmd\<rparr>],
           log_sync_queued := True\<rparr>,
         SUCCESS, GetLastLogIndex (log s) + 1)
      else (s, NOT_LEADER, 0))"
  by (simp add: Replicate_def Append_def Log_Append_def GetLastLogIndex_def Let_def)

subsection \<open>Commit advancement on the leader\<close>

text \<open>C3. Whenever \<^verbatim>\<open>AdvanceCommitIndex\<close> returns with \<open>commit_index\<close> changed, the node
  is leader, the new value is the quorum index \<open>m\<close> computed by \<^verbatim>\<open>QuorumMin\<close>, it is
  larger than the old one, and the log entry at \<open>m\<close> has the current term. And when
  \<open>m\<close> exceeds \<open>commit_index\<close> but the entry at \<open>m\<close> has another term, the object is
  left unchanged.\<close>

theorem AdvanceCommitIndex_current_term_only:
  assumes "AdvanceCommitIndex s = Inr s'"
  shows "(commit_index s' \<noteq> commit_index s \<longrightarrow>
            state s = LEADER \<and> commit_index s' = QuorumMin GetLastAgreeIndex s \<and>
            commit_index s < commit_index s' \<and>
            (\<exists>e. GetEntry (log s) (commit_index s') = Some e \<and>
                 entry_term e = current_term s)) \<and>
         (\<forall>e. commit_index s < QuorumMin GetLastAgreeIndex s \<and>
              GetEntry (log s) (QuorumMin GetLastAgreeIndex s) = Some e \<and>
              entry_term e \<noteq> current_term s \<longrightarrow> s' = s)"
  using assms
  by (auto simp: AdvanceCommitIndex_def Let_def split: if_splits option.splits)

text \<open>At \<open>leader_with_old_entry\<close> the quorum index is 1, above \<open>commit_index = 0\<close>, and
  entry 1 has term 1 while the current term is 2: nothing is committed.\<close>

theorem AdvanceCommitIndex_current_term_only_witness:
  "AdvanceCommitIndex leader_with_old_entry = Inr leader_with_old_entry \<and>
   commit_index leader_with_old_entry < QuorumMin GetLastAgreeIndex leader_with_old_entry \<and>
   GetEntry (log leader_with_old_entry) (QuorumMin GetLastAgreeIndex leader_with_old_entry)
     = Some (entry_of_term 1) \<and>
   entry_term (entry_of_term 1) \<noteq> current_term leader_with_old_entry"
  using AdvanceCommitIndex_current_term_only
          [of leader_with_old_entry leader_with_old_entry]
  by (simp add: AdvanceCommitIndex_def QuorumMin_def GetLastAgreeIndex_def GetEntry_def
        leader_with_old_entry_def node0_def peer_def entry_of_term_def Let_def)

subsection \<open>The client wait path\<close>

text \<open>C10. With an empty peer set \<^verbatim>\<open>WaitForCommitIndex\<close> sets \<open>commit_index\<close> to the
  requested index and returns \<open>SUCCESS\<close> with it at once, whatever the object holds:
  the role, \<open>last_synced_index\<close>, \<open>log_sync_queued\<close>, the log and the current term are
  neither read nor written, and neither the clock nor any later view is consulted.\<close>

theorem WaitForCommitIndex_no_peers:
  assumes "peers s = []"
  shows "WaitForCommitIndex now0 now1 wakeups index s =
           Some (s\<lparr>commit_index := index\<rparr>, SUCCESS, index)"
  using assms by (simp add: WaitForCommitIndex_def)

text \<open>At \<open>lone_leader_unsynced\<close> the sync of entry 1 is still queued
  (\<open>last_synced_index = 0\<close>) and the entry is of an older term, so
  \<^verbatim>\<open>AdvanceCommitIndex\<close> commits nothing; \<^verbatim>\<open>WaitForCommitIndex 1\<close> commits index 1 all the
  same.\<close>

theorem WaitForCommitIndex_no_peers_witness:
  "peers lone_leader_unsynced = [] \<and>
   log_sync_queued lone_leader_unsynced \<and> last_synced_index lone_leader_unsynced = 0 \<and>
   AdvanceCommitIndex lone_leader_unsynced = Inr lone_leader_unsynced \<and>
   WaitForCommitIndex (now (env0 0)) (now (env0 1)) [] 1 lone_leader_unsynced =
     Some (lone_leader_unsynced\<lparr>commit_index := 1\<rparr>, SUCCESS, 1)"
  using WaitForCommitIndex_no_peers
          [of lone_leader_unsynced "now (env0 0)" "now (env0 1)" "[]" 1]
  by (simp add: AdvanceCommitIndex_def QuorumMin_def lone_leader_unsynced_def node0_def)

subsection \<open>Fields that the helpers leave alone\<close>

lemma SetElectionTimer_fields [simp]:
  "log (SetElectionTimer rd s) = log s"
  "commit_index (SetElectionTimer rd s) = commit_index s"
  "current_term (SetElectionTimer rd s) = current_term s"
  "state (SetElectionTimer rd s) = state s"
  "leader_ip (SetElectionTimer rd s) = leader_ip s"
  "leader_port (SetElectionTimer rd s) = leader_port s"
  "voted_for_ip (SetElectionTimer rd s) = voted_for_ip s"
  "voted_for_port (SetElectionTimer rd s) = voted_for_port s"
  "voteable (SetElectionTimer rd s) = voteable s"
  "metadata (SetElectionTimer rd s) = metadata s"
  by (simp_all add: SetElectionTimer_def Let_def)

lemma StepDown_fields [simp]:
  "log (StepDown rd t s) = log s"
  "commit_index (StepDown rd t s) = commit_index s"
  "state (StepDown rd t s) = FOLLOWER"
  "voteable (StepDown rd t s) = voteable s"
  "vote_target_term (StepDown rd t s) = vote_target_term s"
  "vote_target_index (StepDown rd t s) = vote_target_index s"
  "current_term (StepDown rd t s) = max (current_term s) t"
  by (simp_all add: StepDown_def UpdateLogMetadata_def SetElectionTimer_def Let_def)

lemma StepDown_leader:
  "leader_ip (StepDown rd t s) = (if current_term s < t then [] else leader_ip s)"
  "leader_port (StepDown rd t s) = (if current_term s < t then 0 else leader_port s)"
  by (simp_all add: StepDown_def UpdateLogMetadata_def SetElectionTimer_def Let_def)

lemma StepDown_voted_for:
  "voted_for_ip (StepDown rd t s) = (if current_term s < t then [] else voted_for_ip s)"
  "voted_for_port (StepDown rd t s) = (if current_term s < t then 0 else voted_for_port s)"
  by (simp_all add: StepDown_def UpdateLogMetadata_def SetElectionTimer_def Let_def)

lemma Append_commit_index [simp]: "commit_index (Append es s) = commit_index s"
  by (simp add: Append_def Let_def)

lemma GetEntry_in_range:
  "1 \<le> i \<Longrightarrow> i \<le> GetLastLogIndex l \<Longrightarrow> GetEntry l i = Some (l ! (i - 1))"
  by (simp add: GetEntry_def GetLastLogIndex_def)

lemma GetLastLogTerm_returns: "\<exists>t. GetLastLogTerm l = Inr t"
  by (cases l) (simp_all add: GetLastLogTerm_def GetEntry_def GetLastLogIndex_def Let_def)

subsection \<open>AppendEntries on the receiver\<close>

text \<open>The loop never reads a missing index: it reads index \<open>i + 1\<close> only when the log
  reaches it. It leaves \<open>commit_index\<close> alone.\<close>

lemma HandleAppendEntries_loop_returns:
  "\<exists>s1. HandleAppendEntries_loop i es s = Inr s1 \<and> commit_index s1 = commit_index s"
proof (induction es arbitrary: i)
  case Nil
  show ?case by simp
next
  case (Cons e es)
  show ?case
  proof (cases "GetLastLogIndex (log s) \<ge> i + 1")
    case True
    then have "GetEntry (log s) (i + 1) = Some (log s ! i)"
      using GetEntry_in_range [of "i + 1" "log s"] by simp
    with True Cons.IH [of "i + 1"] show ?thesis
      by (auto simp: Let_def)
  next
    case False
    then show ?thesis by (simp add: Let_def)
  qed
qed

lemma HandleAppendEntries_accept_returns:
  "\<exists>s1. HandleAppendEntries_accept aerq aers s = Inr (s1, aers\<lparr>aers_status := True\<rparr>) \<and>
        commit_index s1 = (if commit_index s < aerq_commit_index aerq
                           then aerq_commit_index aerq else commit_index s)"
  using HandleAppendEntries_loop_returns [of "aerq_prev_log_index aerq" "aerq_entries aerq" s]
  by (auto simp: HandleAppendEntries_accept_def Let_def)

lemma HandleAppendEntries_check_returns:
  fixes aerq :: AppendEntriesRequest and s :: RaftConsensus
  defines "mismatch \<equiv>
     aerq_prev_log_index aerq > 0 \<and>
       (aerq_prev_log_index aerq > GetLastLogIndex (log s) \<or>
        (\<exists>e. GetEntry (log s) (aerq_prev_log_index aerq) = Some e \<and>
             entry_term e \<noteq> aerq_prev_log_term aerq))"
  shows "\<exists>s1. HandleAppendEntries_check aerq aers s =
               Inr (s1, if mismatch then aers else aers\<lparr>aers_status := True\<rparr>) \<and>
             commit_index s1 =
               (if \<not> mismatch \<and> commit_index s < aerq_commit_index aerq
                then aerq_commit_index aerq else commit_index s)"
proof (cases "aerq_prev_log_index aerq \<noteq> 0 \<and>
              aerq_prev_log_index aerq \<le> GetLastLogIndex (log s)")
  case True
  then have "GetEntry (log s) (aerq_prev_log_index aerq) =
             Some (log s ! (aerq_prev_log_index aerq - 1))"
    using GetEntry_in_range [of "aerq_prev_log_index aerq" "log s"] by simp
  with True HandleAppendEntries_accept_returns [of aerq aers s] show ?thesis
    by (auto simp: HandleAppendEntries_check_def mismatch_def)
next
  case False
  with HandleAppendEntries_accept_returns [of aerq aers s] show ?thesis
    by (auto simp: HandleAppendEntries_check_def mismatch_def GetEntry_def GetLastLogIndex_def)
qed

text \<open>What \<^verbatim>\<open>HandleAppendEntries\<close> comes to when the sender's term is not below the
  receiver's: \<open>s1\<close> is the object after \<^verbatim>\<open>StepDown\<close> and \<^verbatim>\<open>SetElectionTimer\<close>.\<close>

lemma HandleAppendEntries_unfold:
  fixes env :: env and aerq :: AppendEntriesRequest and s :: RaftConsensus
  assumes "\<not> aerq_term aerq < current_term s"
  defines "s1 \<equiv> SetElectionTimer (env 1) (StepDown (env 0) (aerq_term aerq) s)"
  defines "a1 \<equiv> \<lparr>aers_status = False, aers_term = max (current_term s) (aerq_term aerq)\<rparr>"
  shows "HandleAppendEntries env aerq s =
      (if leader_ip s1 = [] \<or> leader_port s1 = 0
       then HandleAppendEntries_check aerq a1
              (s1\<lparr>leader_ip := aerq_ip aerq, leader_port := aerq_port aerq\<rparr>)
       else if leader_ip s1 = aerq_ip aerq \<and> leader_port s1 = aerq_port aerq
            then HandleAppendEntries_check aerq a1 s1
            else Inl AssertionFailed)"
  using assms(1) unfolding HandleAppendEntries_def s1_def a1_def Let_def
  by (simp add: max_def)

text \<open>The whole outcome of \<^verbatim>\<open>HandleAppendEntries\<close>, shared by the two claims below. The
  call ends in the failed \<^verbatim>\<open>assert\<close> exactly when the sender has the receiver's term
  and the receiver knows another leader (\<open>known_other\<close>); otherwise it replies, with
  \<open>status = false\<close> exactly when the sender's term is lower or the log does not match
  at \<open>prev_log_index\<close> (\<open>mismatch\<close>).\<close>

lemma HandleAppendEntries_outcome:
  fixes aerq :: AppendEntriesRequest and s :: RaftConsensus
  defines "mismatch \<equiv>
     aerq_prev_log_index aerq > 0 \<and>
       (aerq_prev_log_index aerq > GetLastLogIndex (log s) \<or>
        (\<exists>e. GetEntry (log s) (aerq_prev_log_index aerq) = Some e \<and>
             entry_term e \<noteq> aerq_prev_log_term aerq))"
  defines "known_other \<equiv>
     aerq_term aerq = current_term s \<and> leader_ip s \<noteq> [] \<and> leader_port s \<noteq> 0 \<and>
     \<not> (leader_ip s = aerq_ip aerq \<and> leader_port s = aerq_port aerq)"
  shows "(known_other \<and> HandleAppendEntries env aerq s = Inl AssertionFailed) \<or>
   (\<not> known_other \<and>
    (\<exists>s' aers. HandleAppendEntries env aerq s = Inr (s', aers) \<and>
       (aers_status aers = False \<longleftrightarrow> aerq_term aerq < current_term s \<or> mismatch) \<and>
       aers_term aers = max (current_term s) (aerq_term aerq) \<and>
       (if aerq_term aerq < current_term s then s' = s
        else commit_index s' =
               (if \<not> mismatch \<and> commit_index s < aerq_commit_index aerq
                then aerq_commit_index aerq else commit_index s))))"
proof (cases "aerq_term aerq < current_term s")
  case True
  then show ?thesis
    by (simp add: HandleAppendEntries_def known_other_def max_def)
next
  case False
  define s1 where "s1 = SetElectionTimer (env 1) (StepDown (env 0) (aerq_term aerq) s)"
  define a1 where
    "a1 = \<lparr>aers_status = False, aers_term = max (current_term s) (aerq_term aerq)\<rparr>"
  define s2 where "s2 = s1\<lparr>leader_ip := aerq_ip aerq, leader_port := aerq_port aerq\<rparr>"
  note unf = HandleAppendEntries_unfold [where env = env, OF False, folded s1_def a1_def s2_def]
  have l: "log s1 = log s" "log s2 = log s" "commit_index s1 = commit_index s"
    "commit_index s2 = commit_index s"
    by (simp_all add: s1_def s2_def)
  have lead: "leader_ip s1 = (if current_term s < aerq_term aerq then [] else leader_ip s)"
    "leader_port s1 = (if current_term s < aerq_term aerq then 0 else leader_port s)"
    by (simp_all add: s1_def StepDown_leader)
  have st: "aers_status a1 = False" "aers_term a1 = max (current_term s) (aerq_term aerq)"
    by (simp_all add: a1_def)
  show ?thesis
  proof (cases known_other)
    case True
    with False lead unf show ?thesis
      by (auto simp: known_other_def)
  next
    case nm: False
    show ?thesis
    proof (cases "leader_ip s1 = [] \<or> leader_port s1 = 0")
      case True
      with unf have eq: "HandleAppendEntries env aerq s = HandleAppendEntries_check aerq a1 s2"
        by simp
      from HandleAppendEntries_check_returns [of aerq a1 s2] eq nm False l st show ?thesis
        by (auto simp: mismatch_def)
    next
      case known: False
      with nm False lead
      have same: "leader_ip s1 = aerq_ip aerq \<and> leader_port s1 = aerq_port aerq"
        by (auto simp: known_other_def split: if_splits)
      with unf known
      have eq: "HandleAppendEntries env aerq s = HandleAppendEntries_check aerq a1 s1"
        by simp
      from HandleAppendEntries_check_returns [of aerq a1 s1] eq nm False l st show ?thesis
        by (auto simp: mismatch_def)
    qed
  qed
qed

text \<open>C6. \<^verbatim>\<open>HandleAppendEntries\<close> replies unless its \<^verbatim>\<open>assert\<close> fails, which happens exactly
  when the sender has the receiver's term and the receiver has recorded another leader.
  The reply has \<open>status = false\<close> if and only if the sender's term is below the
  receiver's current term, or \<open>prev_log_index > 0\<close> and either \<open>prev_log_index\<close>
  exceeds the receiver's last log index or the receiver's entry there has a term other
  than \<open>prev_log_term\<close>; in every other case it has \<open>status = true\<close>. After a lower
  sender term the reply carries the receiver's current term and the object is
  unchanged.\<close>

theorem HandleAppendEntries_status:
  "(aerq_term aerq = current_term s \<and> leader_ip s \<noteq> [] \<and> leader_port s \<noteq> 0 \<and>
    \<not> (leader_ip s = aerq_ip aerq \<and> leader_port s = aerq_port aerq) \<and>
    HandleAppendEntries env aerq s = Inl AssertionFailed) \<or>
   (\<exists>s' aers. HandleAppendEntries env aerq s = Inr (s', aers) \<and>
      (aers_status aers = False \<longleftrightarrow>
         aerq_term aerq < current_term s \<or>
         (aerq_prev_log_index aerq > 0 \<and>
            (aerq_prev_log_index aerq > GetLastLogIndex (log s) \<or>
             (\<exists>e. GetEntry (log s) (aerq_prev_log_index aerq) = Some e \<and>
                  entry_term e \<noteq> aerq_prev_log_term aerq)))) \<and>
      (if aerq_term aerq < current_term s
       then aers_term aers = current_term s \<and> s' = s else True))"
  using HandleAppendEntries_outcome [of aerq s env]
  by (auto simp: max_def split: if_splits)

text \<open>At \<open>follower_one_entry\<close> the request \<open>append_mismatch\<close> is refused: the sender's
  term is the receiver's, but entry 1 has term 1 and \<open>prev_log_term\<close> is 2.\<close>

theorem HandleAppendEntries_status_witness:
  "HandleAppendEntries env0 append_mismatch follower_one_entry =
     Inr (follower_one_entry
            \<lparr>start_election_at := \<lparr>ts_sec = 1002, ts_nsec = 750000000\<rparr>,
             leader_ip := ''10.0.0.1'', leader_port := 8901\<rparr>,
          \<lparr>aers_status = False, aers_term = 1\<rparr>) \<and>
   GetEntry (log follower_one_entry) (aerq_prev_log_index append_mismatch)
     = Some (entry_of_term 1) \<and>
   entry_term (entry_of_term 1) \<noteq> aerq_prev_log_term append_mismatch"
  using HandleAppendEntries_status [of append_mismatch follower_one_entry env0]
  by (simp add: HandleAppendEntries_def HandleAppendEntries_check_def StepDown_def
        SetElectionTimer_def time_t_of_def GetEntry_def GetLastLogIndex_def time_t_max_def Let_def
        append_mismatch_def append_ahead_def follower_one_entry_def node0_def env0_def
        entry_of_term_def)

text \<open>C1, as the code has it. When a follower accepts an AppendEntries request (the
  sender's term is not below its own, the log matches at \<open>prev_log_index\<close>, and a reply
  is produced), the reply has \<open>status = true\<close> and \<open>commit_index\<close> becomes the
  request's \<open>leader_commit\<close> if that is larger than the current value, and is left
  unchanged otherwise. No minimum with the index of the last new entry is taken.\<close>

theorem HandleAppendEntries_commit_index:
  assumes "\<not> aerq_term aerq < current_term s"
    and "\<not> (aerq_prev_log_index aerq > 0 \<and>
            (aerq_prev_log_index aerq > GetLastLogIndex (log s) \<or>
             (\<exists>e. GetEntry (log s) (aerq_prev_log_index aerq) = Some e \<and>
                  entry_term e \<noteq> aerq_prev_log_term aerq)))"
    and "HandleAppendEntries env aerq s = Inr (s', aers)"
  shows "aers_status aers \<and>
         commit_index s' = (if commit_index s < aerq_commit_index aerq
                            then aerq_commit_index aerq else commit_index s)"
  using HandleAppendEntries_outcome [of aerq s env] assms
  by auto

text \<open>The follower \<open>follower_one_entry\<close> has \<open>commit_index = 0\<close>; the matching request
  \<open>append_ahead\<close> with \<open>leader_commit\<close> lowered to 2 raises it to 2.\<close>

theorem HandleAppendEntries_commit_index_witness:
  "\<not> aerq_term (append_ahead\<lparr>aerq_commit_index := 2\<rparr>) < current_term follower_one_entry \<and>
   GetEntry (log follower_one_entry) 1 = Some (entry_of_term 1) \<and>
   HandleAppendEntries env0 (append_ahead\<lparr>aerq_commit_index := 2\<rparr>) follower_one_entry =
     Inr (follower_one_entry
            \<lparr>start_election_at := \<lparr>ts_sec = 1002, ts_nsec = 750000000\<rparr>,
             leader_ip := ''10.0.0.1'', leader_port := 8901,
             log := [entry_of_term 1, entry_of_term 1], commit_index := 2\<rparr>,
          \<lparr>aers_status = True, aers_term = 1\<rparr>)"
  using HandleAppendEntries_commit_index
          [of "append_ahead\<lparr>aerq_commit_index := 2\<rparr>" follower_one_entry env0
              "follower_one_entry
                 \<lparr>start_election_at := \<lparr>ts_sec = 1002, ts_nsec = 750000000\<rparr>,
                  leader_ip := ''10.0.0.1'', leader_port := 8901,
                  log := [entry_of_term 1, entry_of_term 1], commit_index := 2\<rparr>"
              "\<lparr>aers_status = True, aers_term = 1\<rparr>"]
  by (simp add: HandleAppendEntries_def HandleAppendEntries_check_def
        HandleAppendEntries_accept_def Append_def Log_Append_def StepDown_def
        SetElectionTimer_def time_t_of_def GetEntry_def GetLastLogIndex_def time_t_max_def Let_def
        append_ahead_def follower_one_entry_def node0_def env0_def entry_of_term_def)

text \<open>C1 as stated fails at \<open>follower_one_entry\<close> and \<open>append_ahead\<close>: the request is
  accepted, its last new entry has index 2 and the log then ends at index 2, the stated
  value is \<open>min 7 2 = 2\<close>, and \<open>commit_index\<close> becomes 7.\<close>

theorem HandleAppendEntries_commit_index_counterexample:
  "HandleAppendEntries env0 append_ahead follower_one_entry =
     Inr (follower_one_entry
            \<lparr>start_election_at := \<lparr>ts_sec = 1002, ts_nsec = 750000000\<rparr>,
             leader_ip := ''10.0.0.1'', leader_port := 8901,
             log := [entry_of_term 1, entry_of_term 1], commit_index := 7\<rparr>,
          \<lparr>aers_status = True, aers_term = 1\<rparr>) \<and>
   min (aerq_commit_index append_ahead)
       (aerq_prev_log_index append_ahead + length (aerq_entries append_ahead)) = 2 \<and>
   GetLastLogIndex [entry_of_term 1, entry_of_term 1] = 2"
  by (simp add: HandleAppendEntries_def HandleAppendEntries_check_def
        HandleAppendEntries_accept_def Append_def Log_Append_def StepDown_def
        SetElectionTimer_def time_t_of_def GetEntry_def GetLastLogIndex_def time_t_max_def Let_def
        append_ahead_def follower_one_entry_def node0_def env0_def entry_of_term_def)

subsection \<open>RequestVote on the receiver\<close>

text \<open>\<^verbatim>\<open>HandleRequestVote\<close> with its three stages named: \<open>s1\<close> after the conditional
  \<^verbatim>\<open>StepDown\<close>, \<open>s2\<close> after the update of \<^verbatim>\<open>voteable_\<close>, \<open>s3\<close> after the
  \<^verbatim>\<open>StepDown(current_term_)\<close> and \<^verbatim>\<open>SetElectionTimer\<close> of the inner branches.\<close>

lemma HandleRequestVote_unfold:
  fixes env :: env and rqv :: RequestVote and s :: RaftConsensus
  assumes "GetLastLogTerm (log s) = Inr t"
    and "cg = can_grant rqv t (GetLastLogIndex (log s))"
    and "s1 = (if rqv_term rqv > current_term s \<and> cg
               then StepDown (env 0) (rqv_term rqv) s else s)"
    and "s2 = (if commit_index s1 \<ge> vote_target_index s1 \<and>
                  current_term s1 \<ge> vote_target_term s1
               then s1\<lparr>voteable := True\<rparr> else s1)"
    and "s3 = SetElectionTimer (env 2) (StepDown (env 1) (current_term s2) s2)"
  shows "HandleRequestVote env rqv s =
      (if rqv_term rqv = current_term s2 \<and> cg \<and> voted_for_ip s2 = [] \<and>
          voted_for_port s2 = 0
       then (if voteable s2
             then Inr (UpdateLogMetadata
                         (s3\<lparr>voted_for_ip := rqv_ip rqv, voted_for_port := rqv_port rqv\<rparr>),
                       \<lparr>rsv_term = current_term s3, rsv_granted = True\<rparr>)
             else Inr (s3, \<lparr>rsv_term = current_term s3, rsv_granted = False\<rparr>))
       else Inr (s2, \<lparr>rsv_term = current_term s2, rsv_granted = False\<rparr>))"
  unfolding HandleRequestVote_def assms Let_def
  by (simp add: UpdateLogMetadata_def)

text \<open>C4, as the code has it. \<^verbatim>\<open>HandleRequestVote\<close> always replies, with the receiver's
  term after the call. That term is the candidate's when the candidate's term is higher
  and its log is up to date, and the receiver's own term in every other case. The vote
  is granted if and only if all of the following hold:
  the candidate's term equals the receiver's current term (as it is after the call: a
  higher term has been adopted by then when the candidate's log is up to date);
  the receiver has not voted in this term for anyone, the candidate included (it has
  just entered the term, or its \<open>voted_for\<close> is empty); the candidate's
  \<open>(last_log_term, last_log_index)\<close> is at least the receiver's, by term and then by
  index; and the receiver is eligible: its \<^verbatim>\<open>voteable_\<close> flag was set by an earlier
  request, or its commit index has reached \<open>vote_target_index\<close> and its current term
  \<open>vote_target_term\<close>. When granting, the receiver is follower, has recorded the
  candidate in \<open>voted_for\<close>, has written \<open>(current_term, voted_for)\<close> to the log
  metadata, and has set its election timer from the last clock reading.\<close>

theorem HandleRequestVote_granted:
  "\<exists>s' rsv t. GetLastLogTerm (log s) = Inr t \<and>
     HandleRequestVote env rqv s = Inr (s', rsv) \<and>
     rsv_term rsv = current_term s' \<and>
     current_term s' =
       (if current_term s < rqv_term rqv \<and> can_grant rqv t (GetLastLogIndex (log s))
        then rqv_term rqv else current_term s) \<and>
     (rsv_granted rsv \<longleftrightarrow>
        rqv_term rqv = current_term s' \<and>
        (current_term s < rqv_term rqv \<or> (voted_for_ip s = [] \<and> voted_for_port s = 0)) \<and>
        can_grant rqv t (GetLastLogIndex (log s)) \<and>
        (voteable s \<or>
         (commit_index s \<ge> vote_target_index s \<and> current_term s' \<ge> vote_target_term s))) \<and>
     (if rsv_granted rsv then
        voted_for_ip s' = rqv_ip rqv \<and> voted_for_port s' = rqv_port rqv \<and>
        metadata s' = \<lparr>md_current_term = Some (current_term s'),
                        md_voted_for_ip = Some (rqv_ip rqv),
                        md_voted_for_port = Some (rqv_port rqv)\<rparr> \<and>
        start_election_at s' = start_election_at (SetElectionTimer (env 2) s) \<and>
        state s' = FOLLOWER
      else True)"
proof -
  obtain t where t: "GetLastLogTerm (log s) = Inr t"
    using GetLastLogTerm_returns by blast
  define cg where "cg = can_grant rqv t (GetLastLogIndex (log s))"
  define s1 where "s1 = (if rqv_term rqv > current_term s \<and> cg
                        then StepDown (env 0) (rqv_term rqv) s else s)"
  define s2 where "s2 = (if commit_index s1 \<ge> vote_target_index s1 \<and>
                           current_term s1 \<ge> vote_target_term s1
                        then s1\<lparr>voteable := True\<rparr> else s1)"
  define s3 where "s3 = SetElectionTimer (env 2) (StepDown (env 1) (current_term s2) s2)"
  note unf = HandleRequestVote_unfold [OF t cg_def s1_def s2_def s3_def]
  have s1f:
    "current_term s1 =
       (if rqv_term rqv > current_term s \<and> cg then rqv_term rqv else current_term s)"
    "voted_for_ip s1 = (if rqv_term rqv > current_term s \<and> cg then [] else voted_for_ip s)"
    "voted_for_port s1 = (if rqv_term rqv > current_term s \<and> cg then 0 else voted_for_port s)"
    "commit_index s1 = commit_index s" "vote_target_index s1 = vote_target_index s"
    "vote_target_term s1 = vote_target_term s" "voteable s1 = voteable s"
    by (auto simp: s1_def StepDown_voted_for max_def)
  have s2f: "current_term s2 = current_term s1" "voted_for_ip s2 = voted_for_ip s1"
    "voted_for_port s2 = voted_for_port s1"
    "voteable s2 \<longleftrightarrow> voteable s \<or> (commit_index s \<ge> vote_target_index s \<and>
                                    current_term s1 \<ge> vote_target_term s)"
    by (auto simp: s2_def s1f)
  have s3f: "current_term s3 = current_term s2" "state s3 = FOLLOWER"
    "start_election_at s3 = start_election_at (SetElectionTimer (env 2) s)"
    by (simp_all add: s3_def) (simp add: SetElectionTimer_def Let_def)
  show ?thesis
    using t unf s1f s2f s3f
    by (auto simp: cg_def [symmetric] UpdateLogMetadata_def split: if_splits)
qed

text \<open>The follower \<open>node0\<close> moved to term 3 has not voted and is eligible; the request
  of 10.0.0.2:8901 for term 3 is granted, the vote and the term are in the metadata,
  and the timer is set to 1003.75 s (the reading of \<open>env0 2\<close> plus 1500 ms).\<close>

theorem HandleRequestVote_granted_witness:
  "HandleRequestVote env0 vote_request (node0\<lparr>current_term := 3\<rparr>) =
     Inr (node0\<lparr>start_election_at := \<lparr>ts_sec = 1003, ts_nsec = 750000000\<rparr>,
                voted_for_ip := ''10.0.0.2'', voted_for_port := 8901,
                metadata := \<lparr>md_current_term = Some 3,
                              md_voted_for_ip = Some ''10.0.0.2'',
                              md_voted_for_port = Some 8901\<rparr>,
                current_term := 3\<rparr>,
          \<lparr>rsv_term = 3, rsv_granted = True\<rparr>)"
  using HandleRequestVote_granted [of "node0\<lparr>current_term := 3\<rparr>" env0 vote_request]
  by (simp add: HandleRequestVote_def GetLastLogTerm_def GetLastLogIndex_def can_grant_def
        StepDown_def SetElectionTimer_def time_t_of_def UpdateLogMetadata_def time_t_max_def Let_def
        vote_request_def node0_def env0_def)

text \<open>C4 as stated fails at \<open>voted_follower\<close> and \<open>vote_request\<close>: the candidate's term is
  the receiver's, the receiver's vote of this term went to this very candidate and to
  nobody else, the logs are both empty, and both thresholds are reached; the vote is
  refused and the object is unchanged.\<close>

theorem HandleRequestVote_granted_counterexample:
  "HandleRequestVote env0 vote_request voted_follower =
     Inr (voted_follower, \<lparr>rsv_term = 3, rsv_granted = False\<rparr>) \<and>
   rqv_term vote_request = current_term voted_follower \<and>
   voted_for_ip voted_follower = rqv_ip vote_request \<and>
   voted_for_port voted_follower = rqv_port vote_request \<and>
   GetLastLogTerm (log voted_follower) = Inr 0 \<and>
   can_grant vote_request 0 (GetLastLogIndex (log voted_follower)) \<and>
   vote_target_term voted_follower \<le> current_term voted_follower \<and>
   vote_target_index voted_follower \<le> commit_index voted_follower"
  by (simp add: HandleRequestVote_def GetLastLogTerm_def GetLastLogIndex_def can_grant_def
        Let_def vote_request_def voted_follower_def node0_def)

text \<open>C5, as the code has it. For a RequestVote whose term strictly exceeds the
  receiver's current term the candidate's log decides. If its
  \<open>(last_log_term, last_log_index)\<close> is at least the receiver's, the receiver steps
  down: after the call it has the candidate's term, is follower, has no leader, and its
  vote is the candidate's if the vote was granted and empty otherwise. If not, the
  receiver keeps its term, role, leader and vote (only \<^verbatim>\<open>voteable_\<close> may be set), and
  refuses the vote in a reply that carries its own, lower term.\<close>

theorem HandleRequestVote_higher_term:
  assumes "current_term s < rqv_term rqv"
  shows "\<exists>s' rsv t. GetLastLogTerm (log s) = Inr t \<and>
     HandleRequestVote env rqv s = Inr (s', rsv) \<and>
     (if can_grant rqv t (GetLastLogIndex (log s)) then
        current_term s' = rqv_term rqv \<and> state s' = FOLLOWER \<and>
        leader_ip s' = [] \<and> leader_port s' = 0 \<and>
        rsv_term rsv = rqv_term rqv \<and>
        (if rsv_granted rsv
         then voted_for_ip s' = rqv_ip rqv \<and> voted_for_port s' = rqv_port rqv
         else voted_for_ip s' = [] \<and> voted_for_port s' = 0)
      else
        s' = (if commit_index s \<ge> vote_target_index s \<and>
                 current_term s \<ge> vote_target_term s
              then s\<lparr>voteable := True\<rparr> else s) \<and>
        rsv_term rsv = current_term s \<and> \<not> rsv_granted rsv)"
proof -
  obtain t where t: "GetLastLogTerm (log s) = Inr t"
    using GetLastLogTerm_returns by blast
  define cg where "cg = can_grant rqv t (GetLastLogIndex (log s))"
  define s1 where "s1 = (if rqv_term rqv > current_term s \<and> cg
                        then StepDown (env 0) (rqv_term rqv) s else s)"
  define s2 where "s2 = (if commit_index s1 \<ge> vote_target_index s1 \<and>
                           current_term s1 \<ge> vote_target_term s1
                        then s1\<lparr>voteable := True\<rparr> else s1)"
  define s3 where "s3 = SetElectionTimer (env 2) (StepDown (env 1) (current_term s2) s2)"
  note unf = HandleRequestVote_unfold [OF t cg_def s1_def s2_def s3_def]
  show ?thesis
  proof (cases cg)
    case True
    with assms have s1: "s1 = StepDown (env 0) (rqv_term rqv) s" by (simp add: s1_def)
    have s2f: "current_term s2 = rqv_term rqv" "voted_for_ip s2 = []" "voted_for_port s2 = 0"
      "leader_ip s2 = []" "leader_port s2 = 0"
      using assms by (auto simp: s2_def s1 StepDown_voted_for StepDown_leader max_def)
    have s3f: "current_term s3 = rqv_term rqv" "state s3 = FOLLOWER"
      "leader_ip s3 = []" "leader_port s3 = 0" "voted_for_ip s3 = []" "voted_for_port s3 = 0"
      by (simp_all add: s3_def s2f StepDown_leader StepDown_voted_for)
    from True t unf s2f s3f show ?thesis
      by (auto simp: cg_def [symmetric] UpdateLogMetadata_def)
  next
    case False
    then have s1: "s1 = s" by (simp add: s1_def)
    from False t unf assms show ?thesis
      by (auto simp: cg_def [symmetric] s2_def s1)
  qed
qed

text \<open>The leader \<open>leader_term2\<close> receives the term-5 request of a candidate whose log
  ends in term 2, as its own does: it steps down to term 5 and grants the vote.\<close>

theorem HandleRequestVote_higher_term_witness:
  "current_term leader_term2 < rqv_term fresh_log_vote_request \<and>
   HandleRequestVote env0 fresh_log_vote_request leader_term2 =
     Inr (leader_term2
            \<lparr>state := FOLLOWER,
             start_election_at := \<lparr>ts_sec = 1003, ts_nsec = 750000000\<rparr>,
             leader_ip := [], leader_port := 0,
             voted_for_ip := ''10.0.0.2'', voted_for_port := 8901,
             metadata := \<lparr>md_current_term = Some 5,
                           md_voted_for_ip = Some ''10.0.0.2'',
                           md_voted_for_port = Some 8901\<rparr>,
             current_term := 5\<rparr>,
          \<lparr>rsv_term = 5, rsv_granted = True\<rparr>)"
  using HandleRequestVote_higher_term [of leader_term2 fresh_log_vote_request env0]
  by (simp add: HandleRequestVote_def GetLastLogTerm_def GetLastLogIndex_def GetEntry_def
        can_grant_def StepDown_def SetElectionTimer_def time_t_of_def UpdateLogMetadata_def time_t_max_def
        Let_def fresh_log_vote_request_def stale_log_vote_request_def leader_term2_def
        node0_def env0_def entry_of_term_def)

text \<open>C5 as stated fails at \<open>leader_term2\<close> and \<open>stale_log_vote_request\<close>: the request
  has term 5, the receiver term 2, and the candidate's log ends in term 1 while the
  receiver's ends in term 2. The receiver stays leader of term 2 with its leader and
  vote as they were, and replies with term 2.\<close>

theorem HandleRequestVote_higher_term_counterexample:
  "current_term leader_term2 < rqv_term stale_log_vote_request \<and>
   HandleRequestVote env0 stale_log_vote_request leader_term2 =
     Inr (leader_term2, \<lparr>rsv_term = 2, rsv_granted = False\<rparr>) \<and>
   state leader_term2 = LEADER \<and> current_term leader_term2 = 2"
  by (simp add: HandleRequestVote_def GetLastLogTerm_def GetLastLogIndex_def GetEntry_def
        can_grant_def Let_def stale_log_vote_request_def leader_term2_def node0_def
        entry_of_term_def)

subsection \<open>The quorum index\<close>








subsection \<open>Waiting for the commit\<close>

text \<open>Within the range of \<^verbatim>\<open>time_t\<close> the addition is exact.\<close>

lemma time_t_of_in_range:
  assumes "- (2 ^ 63) \<le> x" and "x \<le> time_t_max"
  shows "time_t_of x = x"
proof -
  have "0 \<le> x + 2 ^ 63" and "x + 2 ^ 63 < 2 ^ 64"
    using assms by (simp_all add: time_t_max_def)
  then have "(x + 2 ^ 63) mod 2 ^ 64 = x + 2 ^ 63"
    by (rule mod_pos_pos_trivial)
  then show ?thesis by (simp add: time_t_of_def)
qed

text \<open>The loop keeps waiting exactly while every view leaves the index uncommitted and
  the deadline not passed; the first view that does not decides the result; and
  whatever it returns comes from one of its views.\<close>

lemma WaitForCommitIndex_loop_None:
  "WaitForCommitIndex_loop index timeout_at vs = None \<longleftrightarrow>
     list_all (\<lambda>(v, nw). commit_index v < index \<and> \<not> timeout_passed nw timeout_at) vs"
  by (induction vs) (auto split: if_splits)

lemma WaitForCommitIndex_loop_first:
  assumes "list_all (\<lambda>(v, nw). commit_index v < index \<and> \<not> timeout_passed nw timeout_at) pre"
    and "\<not> (commit_index v < index \<and> \<not> timeout_passed nw timeout_at)"
  shows "WaitForCommitIndex_loop index timeout_at (pre @ (v, nw) # post) =
           Some (v, if index \<le> commit_index v then SUCCESS else TIMEOUT, index)"
  using assms by (induction pre) auto

lemma WaitForCommitIndex_loop_Some:
  assumes "WaitForCommitIndex_loop index timeout_at vs = Some (s', r, i)"
  shows "i = index \<and>
         (\<exists>nw. (s', nw) \<in> set vs \<and>
            (r = SUCCESS \<and> index \<le> commit_index s' \<or>
             r = TIMEOUT \<and> commit_index s' < index \<and> timeout_passed nw timeout_at))"
  using assms
proof (induction vs)
  case Nil
  then show ?case by simp
next
  case (Cons v vs)
  obtain s0 nw0 where v: "v = (s0, nw0)" by (cases v)
  show ?case
  proof (cases "index \<le> commit_index s0 \<or> timeout_passed nw0 timeout_at")
    case True
    with Cons.prems v show ?thesis
      by (auto split: if_splits)
  next
    case False
    with Cons.prems v have "WaitForCommitIndex_loop index timeout_at vs = Some (s', r, i)"
      by simp
    from Cons.IH [OF this] show ?thesis by auto
  qed
qed

text \<open>C8, as the code has it. With peers, \<^verbatim>\<open>WaitForCommitIndex\<close> computes its deadline at
  the call: ten seconds after the clock it reads, for every clock that is a \<^verbatim>\<open>time_t\<close>
  value at least ten seconds below the largest one (past that the sum wraps around).
  Its views are the object at the call and the object after each wake-up, each with the
  clock read then. The call keeps waiting exactly while every view shows
  \<open>commit_index < index\<close> and a clock not past the deadline. The first view that shows
  otherwise ends the wait, and the call returns that view's object with the requested
  index, in exactly one of two ways: \<open>SUCCESS\<close> when the view shows
  \<open>commit_index \<ge> index\<close>, and \<open>TIMEOUT\<close> when it does not and its clock is past the
  deadline. It never returns \<open>NOT_LEADER\<close>: the loop reads neither the term nor the
  role.\<close>

theorem WaitForCommitIndex_outcomes:
  fixes s :: RaftConsensus and now0 now1 :: timeval and index :: nat
  assumes "peers s \<noteq> []"
  defines "timeout_at \<equiv> \<lparr>ts_sec = time_t_of (tv_sec now0 + 10),
                           ts_nsec = tv_usec now0 * 1000\<rparr>"
  defines "waiting \<equiv> (\<lambda>(v, nw). commit_index v < index \<and> \<not> timeout_passed nw timeout_at)"
  shows "(if - (2 ^ 63) \<le> tv_sec now0 \<and> tv_sec now0 + 10 \<le> time_t_max
          then ts_sec timeout_at = tv_sec now0 + 10 else True) \<and>
         (WaitForCommitIndex now0 now1 wakeups index s = None \<longleftrightarrow>
            list_all waiting ((s, now1) # wakeups)) \<and>
         (\<forall>pre v nw post.
            (s, now1) # wakeups = pre @ (v, nw) # post \<and> list_all waiting pre \<and>
            \<not> waiting (v, nw) \<longrightarrow>
            WaitForCommitIndex now0 now1 wakeups index s =
              Some (v, if index \<le> commit_index v then SUCCESS else TIMEOUT, index)) \<and>
         (\<forall>s' r i. WaitForCommitIndex now0 now1 wakeups index s = Some (s', r, i) \<longrightarrow>
            i = index \<and> r \<noteq> NOT_LEADER \<and>
            (\<exists>nw. (s', nw) \<in> set ((s, now1) # wakeups) \<and>
               (r = SUCCESS \<and> index \<le> commit_index s' \<or>
                r = TIMEOUT \<and> commit_index s' < index \<and> timeout_passed nw timeout_at)))"
proof -
  have eq: "WaitForCommitIndex now0 now1 wakeups index s =
            WaitForCommitIndex_loop index timeout_at ((s, now1) # wakeups)"
    using assms(1) unfolding WaitForCommitIndex_def timeout_at_def Let_def by simp
  have deadline: "- (2 ^ 63) \<le> tv_sec now0 \<and> tv_sec now0 + 10 \<le> time_t_max
                  \<Longrightarrow> ts_sec timeout_at = tv_sec now0 + 10"
    using time_t_of_in_range [of "tv_sec now0 + 10"] by (simp add: timeout_at_def)
  have none: "WaitForCommitIndex now0 now1 wakeups index s = None \<longleftrightarrow>
              list_all waiting ((s, now1) # wakeups)"
    unfolding eq waiting_def by (rule WaitForCommitIndex_loop_None)
  have first: "WaitForCommitIndex now0 now1 wakeups index s =
                 Some (v, if index \<le> commit_index v then SUCCESS else TIMEOUT, index)"
    if "(s, now1) # wakeups = pre @ (v, nw) # post" and "list_all waiting pre"
      and "\<not> waiting (v, nw)" for pre v nw post
  proof -
    have "WaitForCommitIndex_loop index timeout_at (pre @ (v, nw) # post) =
            Some (v, if index \<le> commit_index v then SUCCESS else TIMEOUT, index)"
      using that(2,3) unfolding waiting_def
      by (intro WaitForCommitIndex_loop_first) simp_all
    with that(1) show ?thesis by (simp add: eq)
  qed
  have some: "i = index \<and> r \<noteq> NOT_LEADER \<and>
            (\<exists>nw. (s', nw) \<in> set ((s, now1) # wakeups) \<and>
               (r = SUCCESS \<and> index \<le> commit_index s' \<or>
                r = TIMEOUT \<and> commit_index s' < index \<and> timeout_passed nw timeout_at))"
    if "WaitForCommitIndex now0 now1 wakeups index s = Some (s', r, i)" for s' r i
    using WaitForCommitIndex_loop_Some [of index timeout_at "(s, now1) # wakeups" s' r i] that
    unfolding eq by auto
  show ?thesis
  proof (intro conjI allI impI)
    show "if - (2 ^ 63) \<le> tv_sec now0 \<and> tv_sec now0 + 10 \<le> time_t_max
          then ts_sec timeout_at = tv_sec now0 + 10 else True"
    proof (cases "- (2 ^ 63) \<le> tv_sec now0 \<and> tv_sec now0 + 10 \<le> time_t_max")
      case True
      show ?thesis unfolding if_P [OF True] by (rule deadline [OF True])
    next
      case False
      show ?thesis unfolding if_not_P [OF False] by (rule TrueI)
    qed
    show "WaitForCommitIndex now0 now1 wakeups index s = None \<longleftrightarrow>
            list_all waiting ((s, now1) # wakeups)"
      by (rule none)
  next
    fix pre v nw post
    assume "(s, now1) # wakeups = pre @ (v, nw) # post \<and> list_all waiting pre \<and>
            \<not> waiting (v, nw)"
    then show "WaitForCommitIndex now0 now1 wakeups index s =
                 Some (v, if index \<le> commit_index v then SUCCESS else TIMEOUT, index)"
      using first by blast
  next
    fix s' r i
    assume r: "WaitForCommitIndex now0 now1 wakeups index s = Some (s', r, i)"
    from some [OF r] show "i = index" by (rule conjunct1)
    from some [OF r] show "r \<noteq> NOT_LEADER" by blast
    from some [OF r]
    show "\<exists>nw. (s', nw) \<in> set ((s, now1) # wakeups) \<and>
               (r = SUCCESS \<and> index \<le> commit_index s' \<or>
                r = TIMEOUT \<and> commit_index s' < index \<and> timeout_passed nw timeout_at)"
      by blast
  qed
qed

text \<open>The leader \<open>waiting_leader\<close> waits for index 1 from second 1000 on, so until second
  1010. It is woken at second 1005 with nothing committed, at second 1011 with nothing
  committed, and a third view at second 1012 would show index 1 committed: the call
  returns \<open>TIMEOUT\<close> at the second view.\<close>

theorem WaitForCommitIndex_outcomes_witness:
  "peers waiting_leader \<noteq> [] \<and>
   time_t_of (tv_sec (at_second 1000) + 10) = 1010 \<and>
   WaitForCommitIndex (at_second 1000) (at_second 1000)
       [(waiting_leader, at_second 1005), (waiting_leader, at_second 1011),
        (waiting_leader\<lparr>commit_index := 1\<rparr>, at_second 1012)] 1 waiting_leader
     = Some (waiting_leader, TIMEOUT, 1)"
  using WaitForCommitIndex_outcomes
          [of waiting_leader "at_second 1000" "at_second 1000"
              "[(waiting_leader, at_second 1005), (waiting_leader, at_second 1011),
                (waiting_leader\<lparr>commit_index := 1\<rparr>, at_second 1012)]" 1]
  by (simp add: WaitForCommitIndex_def timeout_passed_def time_t_of_def at_second_def
        waiting_leader_def node0_def peer_def)

text \<open>C8 as stated fails at \<open>waiting_leader\<close>: it is woken at second 1005 after it has
  stepped down to term 2 (\<open>deposed_leader\<close>, the result of \<^verbatim>\<open>StepDown(2)\<close>), keeps
  waiting, and returns \<open>TIMEOUT\<close> at second 1011, not \<open>NOT_LEADER\<close> at second 1005.\<close>

theorem WaitForCommitIndex_outcomes_counterexample:
  "StepDown \<lparr>now = at_second 1005, ms = 1500\<rparr> 2 waiting_leader = deposed_leader \<and>
   current_term waiting_leader < current_term deposed_leader \<and>
   state waiting_leader = LEADER \<and> state deposed_leader = FOLLOWER \<and>
   WaitForCommitIndex (at_second 1000) (at_second 1000)
       [(deposed_leader, at_second 1005), (deposed_leader, at_second 1011)] 1 waiting_leader
     = Some (deposed_leader, TIMEOUT, 1)"
  by (simp add: WaitForCommitIndex_def timeout_passed_def time_t_of_def StepDown_def
        SetElectionTimer_def UpdateLogMetadata_def time_t_max_def Let_def at_second_def
        deposed_leader_def waiting_leader_def node0_def peer_def)

subsection \<open>Monotonicity of the commit index\<close>

text \<open>The two guarded writers never lower \<open>commit_index\<close>.\<close>

lemma AdvanceCommitIndex_commit_index_mono:
  "AdvanceCommitIndex s = Inr s' \<Longrightarrow> commit_index s \<le> commit_index s'"
  by (auto simp: AdvanceCommitIndex_def Let_def split: if_splits option.splits)

lemma HandleAppendEntries_commit_index_mono:
  "HandleAppendEntries env aerq s = Inr (s', aers) \<Longrightarrow> commit_index s \<le> commit_index s'"
  using HandleAppendEntries_outcome [of aerq s env]
  by (auto split: if_splits)

text \<open>C9. \<open>commit_index\<close> is not monotone: the \<^verbatim>\<open>peers_.empty()\<close> branch of
  \<^verbatim>\<open>WaitForCommitIndex\<close> assigns the requested index without comparing. Two client
  threads on a single-node leader each call \<^verbatim>\<open>Replicate\<close> and then
  \<^verbatim>\<open>WaitForCommitIndex\<close>, taking the mutex for each call separately. The first is
  assigned index 1, the second index 2; the second waits first and sets
  \<open>commit_index = 2\<close>; then the first waits and sets \<open>commit_index = 1\<close>.\<close>

theorem WaitForCommitIndex_lowers_commit_index:
  "Replicate (\<lambda>c. c) ''a'' lone_leader =
     (lone_leader\<lparr>log := [\<lparr>entry_type = DATA, entry_term = 1, entry_cmd = ''a''\<rparr>],
                  log_sync_queued := True\<rparr>, SUCCESS, 1) \<and>
   Replicate (\<lambda>c. c) ''b''
       (lone_leader\<lparr>log := [\<lparr>entry_type = DATA, entry_term = 1, entry_cmd = ''a''\<rparr>],
                    log_sync_queued := True\<rparr>) =
     (lone_leader_two_entries, SUCCESS, 2) \<and>
   WaitForCommitIndex (at_second 1000) (at_second 1000) [] 2 lone_leader_two_entries =
     Some (lone_leader_two_entries\<lparr>commit_index := 2\<rparr>, SUCCESS, 2) \<and>
   WaitForCommitIndex (at_second 1000) (at_second 1000) [] 1
       (lone_leader_two_entries\<lparr>commit_index := 2\<rparr>) =
     Some (lone_leader_two_entries\<lparr>commit_index := 1\<rparr>, SUCCESS, 1) \<and>
   commit_index (lone_leader_two_entries\<lparr>commit_index := 1\<rparr>) <
     commit_index (lone_leader_two_entries\<lparr>commit_index := 2\<rparr>)"
  by (simp add: Replicate_def Append_def Log_Append_def GetLastLogIndex_def
        WaitForCommitIndex_def Let_def lone_leader_two_entries_def lone_leader_def node0_def)

end
